theory Spec2Isabelle
  imports Complex_Main "HOL-Library.Char_ord" "HOL-Library.List_Lexorder"
    "HOL-Library.Product_Lexorder"
begin

section \<open>The continuous-integration workflow\<close>

text \<open>
  The workflow file is data read by the hosting platform. Its keys are transcribed one by
  one below; the platform's reading of them (which events start a run, how a matrix
  expands into job instances, which steps of a job run) is written as functions over
  that data.
\<close>

subsection \<open>Expressions and commands\<close>

text \<open>
  A string of the file with \<^verbatim>\<open>${{ ... }}\<close> expressions in it is a list of pieces: literal text
  and the expressions the file uses (\<^verbatim>\<open>matrix.k\<close>, \<^verbatim>\<open>env.k\<close>, \<^verbatim>\<open>runner.k\<close>,
  \<^verbatim>\<open>hashFiles('f')\<close>, \<^verbatim>\<open>steps.s.outputs.k\<close>).
\<close>

datatype piece =
    Lit string
  | Matrix string
  | Env string
  | Runner string
  | HashFiles string
  | StepOutput string string

type_synonym template = "piece list"

text \<open>
  A line of a \<^verbatim>\<open>run:\<close> script is a command with its words as the shell splits them
  (continuation lines joined, quotes removed, comments dropped). The notebook job's script
  also stores the notebook's base name in a shell variable and publishes that variable as
  a step output.
\<close>

datatype command =
    Exec "template list"
  | AssignBasename string template
  | SetOutput string string

text \<open>A step without an \<^verbatim>\<open>if:\<close> key runs on success only; \<^verbatim>\<open>always()\<close> is the other
  condition the file uses.\<close>

datatype condition = OnSuccess | Always

record step =
  step_name :: "string option"
  step_id :: "string option"
  step_uses :: "string option"
  step_with :: "(string \<times> template) list"
  step_run :: "command list"
  step_if :: condition

type_synonym assignment = "(string \<times> string) list"

text \<open>
  A job has a runner, the jobs it waits for (\<^verbatim>\<open>needs:\<close>), its strategy (the matrix, the
  excluded combinations, and \<^verbatim>\<open>max-parallel:\<close>, the most instances of the matrix that run at
  the same time, if the job sets it), its environment and its steps.
\<close>

record job =
  job_runs_on :: string
  job_needs :: "string list"
  job_matrix :: "(string \<times> string list) list"
  job_exclude :: "assignment list"
  job_max_parallel :: "nat option"
  job_env :: "(string \<times> string) list"
  job_steps :: "step list"

subsection \<open>Triggers\<close>

datatype git_ref = Branch string | Tag string

text \<open>A push updates a ref; a pull request is made against a base branch.\<close>

datatype event = Push git_ref | PullRequest string

text \<open>An event key of \<^verbatim>\<open>on:\<close> with its \<^verbatim>\<open>branches:\<close> filter, if it has one.\<close>

record event_filter =
  filter_branches :: "string list option"

record triggers =
  on_push :: "event_filter option"
  on_pull_request :: "event_filter option"

record workflow =
  wf_name :: string
  wf_on :: triggers
  wf_jobs :: "(string \<times> job) list"

text \<open>
  A branch pattern may hold wildcards; a pattern without any matches the branch of the
  same name only. \<open>plain_pattern\<close> says that a pattern has none of the wildcard
  characters, and the patterns of this workflow are plain.
\<close>

definition plain_pattern :: "string \<Rightarrow> bool" where
  "plain_pattern p = list_all (\<lambda>c. c \<notin> set ''*?+[]!'') p"

definition branch_matches :: "string \<Rightarrow> string \<Rightarrow> bool" where
  "branch_matches p b = (p = b)"

text \<open>
  Without a filter every ref passes. With a \<^verbatim>\<open>branches:\<close> filter (and no \<^verbatim>\<open>tags:\<close> one) a
  branch passes when a pattern matches it, and no tag passes.
\<close>

fun filter_accepts :: "event_filter \<Rightarrow> git_ref \<Rightarrow> bool" where
  "filter_accepts f r =
     (case filter_branches f of
        None \<Rightarrow> True
      | Some ps \<Rightarrow> (case r of Branch b \<Rightarrow> list_ex (\<lambda>p. branch_matches p b) ps | Tag t \<Rightarrow> False))"

fun triggered :: "triggers \<Rightarrow> event \<Rightarrow> bool" where
  "triggered t (Push r) =
     (case on_push t of None \<Rightarrow> False | Some f \<Rightarrow> filter_accepts f r)"
| "triggered t (PullRequest base) =
     (case on_pull_request t of None \<Rightarrow> False | Some f \<Rightarrow> filter_accepts f (Branch base))"

subsection \<open>Matrix expansion\<close>

text \<open>
  A matrix expands into one job instance per combination of its axes' values, less the
  combinations an \<^verbatim>\<open>exclude:\<close> entry matches; an entry matches a combination that has all of
  the entry's key-value pairs. A job without a matrix has the one, empty, combination.
\<close>

fun combinations :: "(string \<times> string list) list \<Rightarrow> assignment list" where
  "combinations [] = [[]]"
| "combinations ((k, vs) # rest) =
     concat (map (\<lambda>v. map (\<lambda>c. (k, v) # c) (combinations rest)) vs)"

definition excluded_by :: "assignment \<Rightarrow> assignment \<Rightarrow> bool" where
  "excluded_by c e = list_all (\<lambda>kv. map_of c (fst kv) = Some (snd kv)) e"

definition job_instances :: "job \<Rightarrow> assignment list" where
  "job_instances j =
     filter (\<lambda>c. \<not> list_ex (excluded_by c) (job_exclude j)) (combinations (job_matrix j))"

text \<open>The value of an axis in a job instance; an unset property reads as the empty string.\<close>

definition matrix_value :: "assignment \<Rightarrow> string \<Rightarrow> string" where
  "matrix_value c k = (case map_of c k of Some v \<Rightarrow> v | None \<Rightarrow> [])"

text \<open>
  Rendering a template in a job instance: matrix and environment values are known when
  the instance is created; the runner's values, file hashes and step outputs are not, and
  a template with one of them has no rendering here.
\<close>

fun render_piece :: "assignment \<Rightarrow> (string \<times> string) list \<Rightarrow> piece \<Rightarrow> string option" where
  "render_piece c e (Lit s) = Some s"
| "render_piece c e (Matrix k) = Some (matrix_value c k)"
| "render_piece c e (Env k) = Some (case map_of e k of Some v \<Rightarrow> v | None \<Rightarrow> [])"
| "render_piece c e (Runner k) = None"
| "render_piece c e (HashFiles f) = None"
| "render_piece c e (StepOutput s k) = None"

fun render :: "assignment \<Rightarrow> (string \<times> string) list \<Rightarrow> template \<Rightarrow> string option" where
  "render c e [] = Some []"
| "render c e (p # ps) =
     (case render_piece c e p of
        None \<Rightarrow> None
      | Some s \<Rightarrow> (case render c e ps of None \<Rightarrow> None | Some t \<Rightarrow> Some (s @ t)))"

subsection \<open>Running the steps of a job\<close>

text \<open>
  The steps run in order. \<open>ok i\<close> says whether the action of step \<open>i\<close> succeeds when it
  runs. A step with the default condition runs only while no earlier step has failed; a
  step with \<^verbatim>\<open>always()\<close> runs in any case.
\<close>

datatype outcome = Succeeded | Failed | Skipped

fun run_steps :: "(nat \<Rightarrow> bool) \<Rightarrow> nat \<Rightarrow> bool \<Rightarrow> step list \<Rightarrow> outcome list" where
  "run_steps ok i failed [] = []"
| "run_steps ok i failed (s # ss) =
     (if step_if s = Always \<or> \<not> failed
      then (if ok i then Succeeded # run_steps ok (Suc i) failed ss
            else Failed # run_steps ok (Suc i) True ss)
      else Skipped # run_steps ok (Suc i) failed ss)"

definition run_job :: "(nat \<Rightarrow> bool) \<Rightarrow> job \<Rightarrow> outcome list" where
  "run_job ok j = run_steps ok 0 False (job_steps j)"



text \<open>The outcome of the first step of a job that has the given name.\<close>

fun outcome_of :: "string \<Rightarrow> step list \<Rightarrow> outcome list \<Rightarrow> outcome option" where
  "outcome_of n (s # ss) (r # rs) = (if step_name s = Some n then Some r else outcome_of n ss rs)"
| "outcome_of n ss rs = None"

text \<open>The \<^verbatim>\<open>with:\<close> value of a step.\<close>

definition with_value :: "step \<Rightarrow> string \<Rightarrow> template option" where
  "with_value s k = map_of (step_with s) k"

text \<open>The argument of a command's option written \<^verbatim>\<open>--name=value\<close>, as a template.\<close>

fun strip_prefix :: "string \<Rightarrow> template \<Rightarrow> template option" where
  "strip_prefix p (Lit s # ps) =
     (if take (length p) s = p then Some (Lit (drop (length p) s) # ps) else None)"
| "strip_prefix p ps = None"

fun option_value :: "string \<Rightarrow> template list \<Rightarrow> template option" where
  "option_value p [] = None"
| "option_value p (w # ws) =
     (case strip_prefix p w of Some t \<Rightarrow> Some t | None \<Rightarrow> option_value p ws)"

subsection \<open>The workflow file\<close>

definition checkout :: step where
  "checkout = \<lparr>step_name = None, step_id = None, step_uses = Some ''actions/checkout@v2'',
     step_with = [], step_run = [], step_if = OnSuccess\<rparr>"

definition setup_python :: "template \<Rightarrow> step" where
  "setup_python v = \<lparr>step_name = Some ''Setup Python'', step_id = None,
     step_uses = Some ''actions/setup-python@v2'',
     step_with = [(''python-version'', v)], step_run = [], step_if = OnSuccess\<rparr>"

definition restore_cache :: "piece \<Rightarrow> step" where
  "restore_cache v = \<lparr>step_name = Some ''Restore cache'', step_id = None,
     step_uses = Some ''actions/cache@v2'',
     step_with =
       [(''path'', [Lit ''~/.cache/pip'']),
        (''key'', [Runner ''os'', Lit ''-'', v, Lit ''-pip-'', HashFiles ''setup.py'']),
        (''restore-keys'', [Runner ''os'', Lit ''-'', v, Lit ''-pip-''])],
     step_run = [], step_if = OnSuccess\<rparr>"

definition install_dependencies :: step where
  "install_dependencies = \<lparr>step_name = Some ''Install dependencies'', step_id = None,
     step_uses = None, step_with = [],
     step_run =
       [Exec [[Lit ''python''], [Lit ''-m''], [Lit ''pip''], [Lit ''install''],
              [Lit ''--upgrade''], [Lit ''pip'']],
        Exec [[Lit ''pip''], [Lit ''install''], [Lit ''.[test,demos]'']]],
     step_if = OnSuccess\<rparr>"

definition pytest_command :: "template list" where
  "pytest_command =
     [[Lit ''py.test''], [Lit ''-ra''], [Lit ''tests/''], [Lit ''--doctest-modules''],
      [Lit ''--cov=stellargraph''], [Lit ''--cov-report=xml''],
      [Lit ''-p''], [Lit ''no:cacheprovider''],
      [Lit ''--junitxml=pytest-results-'', Matrix ''python-version'', Lit ''.xml''],
      [Lit ''--benchmark-disable'']]"

definition run_pytest :: step where
  "run_pytest = \<lparr>step_name = Some ''Run pytest tests'', step_id = None,
     step_uses = None, step_with = [], step_run = [Exec pytest_command],
     step_if = OnSuccess\<rparr>"

definition upload_pytest_results :: step where
  "upload_pytest_results = \<lparr>step_name = Some ''Upload pytest test results'', step_id = None,
     step_uses = Some ''actions/upload-artifact@v1'',
     step_with =
       [(''name'', [Lit ''pytest-results-'', Matrix ''python-version'']),
        (''path'', [Lit ''pytest-results-'', Matrix ''python-version'', Lit ''.xml''])],
     step_run = [], step_if = Always\<rparr>"

definition upload_coverage :: step where
  "upload_coverage = \<lparr>step_name = Some ''Upload coverage to Codecov'', step_id = None,
     step_uses = Some ''codecov/codecov-action@v1'',
     step_with = [(''env_vars'', [Lit ''OS,PYTHON''])],
     step_run = [], step_if = OnSuccess\<rparr>"

definition build :: job where
  "build = \<lparr>job_runs_on = ''ubuntu-latest'', job_needs = [],
     job_matrix = [(''python-version'', [''3.6'', ''3.7'', ''3.8''])],
     job_exclude = [], job_max_parallel = None, job_env = [],
     job_steps =
       [checkout, setup_python [Matrix ''python-version''],
        restore_cache (Matrix ''python-version''), install_dependencies, run_pytest,
        upload_pytest_results, upload_coverage]\<rparr>"

text \<open>The list of all notebooks, the \<^verbatim>\<open>notebook:\<close> axis of the notebooks job.\<close>

definition notebook_list :: "string list" where
  "notebook_list =
    [''demos/basics/loading-networkx.ipynb'',
     ''demos/basics/loading-numpy.ipynb'',
     ''demos/basics/loading-pandas.ipynb'',
     ''demos/basics/loading-saving-neo4j.ipynb'',
     ''demos/calibration/calibration-link-prediction.ipynb'',
     ''demos/calibration/calibration-node-classification.ipynb'',
     ''demos/community_detection/attacks_clustering_analysis.ipynb'',
     ''demos/connector/neo4j/cluster-gcn-on-cora-neo4j-example.ipynb'',
     ''demos/connector/neo4j/directed-graphsage-on-cora-neo4j-example.ipynb'',
     ''demos/connector/neo4j/load-cora-into-neo4j.ipynb'',
     ''demos/connector/neo4j/undirected-graphsage-on-cora-neo4j-example.ipynb'',
     ''demos/embeddings/attri2vec-embeddings.ipynb'',
     ''demos/embeddings/deep-graph-infomax-embeddings.ipynb'',
     ''demos/embeddings/gcn-unsupervised-graph-embeddings.ipynb'',
     ''demos/embeddings/graphsage-unsupervised-sampler-embeddings.ipynb'',
     ''demos/embeddings/graphwave-embeddings.ipynb'',
     ''demos/embeddings/keras-node2vec-embeddings.ipynb'',
     ''demos/embeddings/metapath2vec-embeddings.ipynb'',
     ''demos/embeddings/node2vec-embeddings.ipynb'',
     ''demos/embeddings/watch-your-step-embeddings.ipynb'',
     ''demos/ensembles/ensemble-link-prediction-example.ipynb'',
     ''demos/ensembles/ensemble-node-classification-example.ipynb'',
     ''demos/graph-classification/dgcnn-graph-classification.ipynb'',
     ''demos/graph-classification/gcn-supervised-graph-classification.ipynb'',
     ''demos/interpretability/gat-node-link-importance.ipynb'',
     ''demos/interpretability/gcn-node-link-importance.ipynb'',
     ''demos/interpretability/gcn-sparse-node-link-importance.ipynb'',
     ''demos/interpretability/hateful-twitters-interpretability.ipynb'',
     ''demos/link-prediction/attri2vec-link-prediction.ipynb'',
     ''demos/link-prediction/complex-link-prediction.ipynb'',
     ''demos/link-prediction/ctdne-link-prediction.ipynb'',
     ''demos/link-prediction/distmult-link-prediction.ipynb'',
     ''demos/link-prediction/gcn-link-prediction.ipynb'',
     ''demos/link-prediction/graphsage-link-prediction.ipynb'',
     ''demos/link-prediction/hinsage-link-prediction.ipynb'',
     ''demos/link-prediction/homogeneous-comparison-link-prediction.ipynb'',
     ''demos/link-prediction/metapath2vec-link-prediction.ipynb'',
     ''demos/link-prediction/node2vec-link-prediction.ipynb'',
     ''demos/node-classification/attri2vec-node-classification.ipynb'',
     ''demos/node-classification/cluster-gcn-node-classification.ipynb'',
     ''demos/node-classification/directed-graphsage-node-classification.ipynb'',
     ''demos/node-classification/gat-node-classification.ipynb'',
     ''demos/node-classification/gcn-deep-graph-infomax-fine-tuning-node-classification.ipynb'',
     ''demos/node-classification/gcn-node-classification.ipynb'',
     ''demos/node-classification/gcn/gcn-cora-node-classification-example.ipynb'',
     ''demos/node-classification/graphsage-inductive-node-classification.ipynb'',
     ''demos/node-classification/graphsage-node-classification.ipynb'',
     ''demos/node-classification/keras-node2vec-node-classification.ipynb'',
     ''demos/node-classification/node2vec-node-classification.ipynb'',
     ''demos/node-classification/node2vec-weighted-node-classification.ipynb'',
     ''demos/node-classification/ppnp-node-classification.ipynb'',
     ''demos/node-classification/rgcn-node-classification.ipynb'',
     ''demos/node-classification/sgc-node-classification.ipynb'',
     ''demos/time-series/gcn-lstm-time-series.ipynb'',
     ''demos/use-cases/hateful-twitters.ipynb'',
     ''demos/zzz-internal-developers/graph-resource-usage.ipynb'']"

text \<open>The excluded notebooks, in the two groups the file's comments make: the notebooks
  that require Neo4j and are run separately, and the notebooks that do not yet run on CI.\<close>

definition exclude_neo4j :: "string list" where
  "exclude_neo4j =
    [''demos/connector/neo4j/cluster-gcn-on-cora-neo4j-example.ipynb'',
     ''demos/connector/neo4j/directed-graphsage-on-cora-neo4j-example.ipynb'',
     ''demos/connector/neo4j/load-cora-into-neo4j.ipynb'',
     ''demos/connector/neo4j/undirected-graphsage-on-cora-neo4j-example.ipynb'',
     ''demos/basics/loading-saving-neo4j.ipynb'']"

definition exclude_not_on_ci :: "string list" where
  "exclude_not_on_ci =
    [''demos/community_detection/attacks_clustering_analysis.ipynb'',
     ''demos/interpretability/gat-node-link-importance.ipynb'',
     ''demos/interpretability/gcn-node-link-importance.ipynb'',
     ''demos/interpretability/gcn-sparse-node-link-importance.ipynb'',
     ''demos/interpretability/hateful-twitters-interpretability.ipynb'',
     ''demos/link-prediction/attri2vec-link-prediction.ipynb'',
     ''demos/node-classification/rgcn-node-classification.ipynb'',
     ''demos/use-cases/hateful-twitters.ipynb'']"

definition excluded_notebooks :: "string list" where
  "excluded_notebooks = exclude_neo4j @ exclude_not_on_ci"

text \<open>The notebook is run by papermill, which reads its first path argument and writes
  the executed notebook to its second, here the same path.\<close>

definition papermill_command :: "template list" where
  "papermill_command =
     [[Lit ''papermill''], [Lit ''--execution-timeout=600''],
      [Lit ''--parameters_file''], [Lit ''./.buildkite/notebook-parameters.yml''],
      [Lit ''--log-output''], [Matrix ''notebook''], [Matrix ''notebook'']]"

definition run_notebook :: step where
  "run_notebook = \<lparr>step_name = Some ''Run notebook'', step_id = Some ''run_notebook'',
     step_uses = None, step_with = [],
     step_run =
       [Exec papermill_command,
        AssignBasename ''notebook_name'' [Matrix ''notebook''],
        SetOutput ''notebook_name'' ''notebook_name''],
     step_if = OnSuccess\<rparr>"

definition upload_artifact :: step where
  "upload_artifact = \<lparr>step_name = Some ''Upload artifact'', step_id = None,
     step_uses = Some ''actions/upload-artifact@v1'',
     step_with =
       [(''name'', [StepOutput ''run_notebook'' ''notebook_name'']),
        (''path'', [Matrix ''notebook''])],
     step_run = [], step_if = Always\<rparr>"

definition notebooks :: job where
  "notebooks = \<lparr>job_runs_on = ''ubuntu-latest'', job_needs = [],
     job_matrix = [(''notebook'', notebook_list)],
     job_exclude = map (\<lambda>n. [(''notebook'', n)]) excluded_notebooks,
     job_max_parallel = None,
     job_env = [(''PYTHON_VERSION'', ''3.6'')],
     job_steps =
       [checkout, setup_python [Env ''PYTHON_VERSION''],
        restore_cache (Env ''PYTHON_VERSION''), install_dependencies, run_notebook,
        upload_artifact]\<rparr>"

definition validate_notebooks_list :: job where
  "validate_notebooks_list = \<lparr>job_runs_on = ''ubuntu-latest'', job_needs = [],
     job_matrix = [], job_exclude = [], job_max_parallel = None, job_env = [],
     job_steps =
       [checkout,
        \<lparr>step_name = Some ''Install dependencies'', step_id = None, step_uses = None,
         step_with = [],
         step_run =
           [Exec [[Lit ''python3''], [Lit ''-m''], [Lit ''pip''], [Lit ''install''],
                  [Lit ''--upgrade''], [Lit ''pip'']],
            Exec [[Lit ''python3''], [Lit ''-m''], [Lit ''pip''], [Lit ''install''],
                  [Lit ''PyYAML'']]],
         step_if = OnSuccess\<rparr>,
        \<lparr>step_name = Some ''Run check'', step_id = None, step_uses = None, step_with = [],
         step_run = [Exec [[Lit ''python3''], [Lit ''scripts/ci_workflow_notebook_list.py'']]],
         step_if = OnSuccess\<rparr>]\<rparr>"

definition ci_workflow :: workflow where
  "ci_workflow = \<lparr>wf_name = ''Continuous Integration'',
     wf_on = \<lparr>on_push = Some \<lparr>filter_branches = Some [''develop'', ''master'']\<rparr>,
              on_pull_request = Some \<lparr>filter_branches = None\<rparr>\<rparr>,
     wf_jobs = [(''build'', build), (''notebooks'', notebooks),
                (''validate-notebooks-list'', validate_notebooks_list)]\<rparr>"

text \<open>An event starts a run of the workflow when its \<^verbatim>\<open>on:\<close> key has the event and the
  event passes the key's filter.\<close>

definition workflow_runs :: "event \<Rightarrow> bool" where
  "workflow_runs ev = triggered (wf_on ci_workflow) ev"

text \<open>The path that an upload step uploads in a job instance, the file the pytest step
  writes its results to, and the file papermill writes the executed notebook to.\<close>

definition artifact_path :: "step \<Rightarrow> assignment \<Rightarrow> (string \<times> string) list \<Rightarrow> string option" where
  "artifact_path s c e = (case with_value s ''path'' of None \<Rightarrow> None | Some t \<Rightarrow> render c e t)"

definition junit_file :: "assignment \<Rightarrow> string option" where
  "junit_file c =
     (case option_value ''--junitxml='' pytest_command of
        None \<Rightarrow> None
      | Some t \<Rightarrow> render c (job_env build) t)"

definition papermill_output :: "assignment \<Rightarrow> string option" where
  "papermill_output c = render c (job_env notebooks) (last papermill_command)"

section \<open>The demo notebooks\<close>

text \<open>
  A notebook is its list of cells in document order. A code cell has its execution count,
  its tags, the execution count that its result output carries (if it has a result), and
  its source: the top-level statements of the cell in order. An import is an import; a
  statement that calls into the library is given by its library calls (the callee as the
  source writes it, the number of positional arguments, the names of the keyword
  arguments, in source order); every other statement (NumPy, Pandas, NetworkX, Neo4j and
  Keras code, displays of values) is \<open>Other\<close>.
\<close>

datatype stmt =
    Import string "string option"
  | FromImport string "string list"
  | InstallIfColab string
  | VersionCheck
  | LibCall string nat "string list"
  | Other

record code_cell =
  execution_count :: "nat option"
  tags :: "string list"
  result_count :: "nat option"
  source :: "stmt list"

datatype cell = Markdown | Code code_cell

record notebook =
  nb_path :: string
  nb_cells :: "cell list"

definition code :: "nat \<Rightarrow> string list \<Rightarrow> nat option \<Rightarrow> stmt list \<Rightarrow> cell" where
  "code n ts r ss = Code \<lparr>execution_count = Some n, tags = ts, result_count = r, source = ss\<rparr>"

fun code_cells :: "cell list \<Rightarrow> code_cell list" where
  "code_cells [] = []"
| "code_cells (Markdown # cs) = code_cells cs"
| "code_cells (Code c # cs) = c # code_cells cs"

subsection \<open>The two cells every notebook starts with\<close>

text \<open>
  The first code cell installs the library when the notebook runs on Google Colab:
  \<^verbatim>\<open>import sys\<close>, then \<^verbatim>\<open>%pip install -q stellargraph[demos]==1.2.1\<close> under
  \<^verbatim>\<open>if 'google.colab' in sys.modules\<close>. The second imports the library as \<^verbatim>\<open>sg\<close> and
  checks its version.
\<close>

definition cloud_runner_cell :: cell where
  "cloud_runner_cell =
     code 1 [''CloudRunner''] None [Import ''sys'' None, InstallIfColab ''stellargraph[demos]==1.2.1'']"

definition version_check_cell :: cell where
  "version_check_cell =
     code 2 [''VersionCheck''] None [Import ''stellargraph'' (Some ''sg''), VersionCheck]"

text \<open>
  The version check is
  \<^verbatim>\<open>try: sg.utils.validate_notebook_version("1.2.1")\<close>
  \<^verbatim>\<open>except AttributeError: raise ValueError(f"... {sg.__version__} ...") from None\<close>.
  What the cell sees of the installed library is its version string and whether it has
  the function \<^verbatim>\<open>sg.utils.validate_notebook_version\<close>, which an older installation does not
  have: looking it up raises \<^verbatim>\<open>AttributeError\<close> there.
\<close>

datatype exn = AttributeError | ValueError string | OtherError string

record installed_library =
  lib_version :: string
  has_validate_notebook_version :: bool

text \<open>
  Modelled from the spec: the library's function \<^verbatim>\<open>validate_notebook_version\<close>, whose module
  is missing. The notebooks call it to verify that the correct version of the library is
  used for the notebook, and word the failure as: the notebook requires version 1.2.1, but
  a different version is installed. So the function returns when the installed version is
  the requested one, and raises otherwise. Which exception it raises is not said; it is
  the parameter \<open>e\<close>. The result is the exception raised, if any.
\<close>

definition validate_notebook_version :: "exn \<Rightarrow> string \<Rightarrow> string \<Rightarrow> exn option" where
  "validate_notebook_version e installed requested =
     (if installed = requested then None else Some e)"

definition version_message :: "string \<Rightarrow> string" where
  "version_message v =
     ''This notebook requires StellarGraph version 1.2.1, but a different version '' @ v @
     '' is installed.  Please see <https://github.com/stellargraph/stellargraph/issues/1172>.''"

text \<open>The result of the check is the exception that leaves the cell, if any.\<close>

definition version_check :: "exn \<Rightarrow> installed_library \<Rightarrow> exn option" where
  "version_check e sg =
     (if \<not> has_validate_notebook_version sg
      then Some (ValueError (version_message (lib_version sg)))
      else (case validate_notebook_version e (lib_version sg) ''1.2.1'' of
              Some AttributeError \<Rightarrow> Some (ValueError (version_message (lib_version sg)))
            | r \<Rightarrow> r))"

text \<open>A statement uses the library when it imports it (or a module of it), checks its
  version or calls into it.\<close>

definition library_module :: "string \<Rightarrow> bool" where
  "library_module m = (m = ''stellargraph'' \<or> take 13 m = ''stellargraph.'')"

fun uses_library :: "stmt \<Rightarrow> bool" where
  "uses_library (Import m a) = library_module m"
| "uses_library (FromImport m ns) = library_module m"
| "uses_library (InstallIfColab r) = False"
| "uses_library VersionCheck = True"
| "uses_library (LibCall f n ks) = True"
| "uses_library Other = False"

text \<open>The code cells of a notebook from the first one that uses the library on.\<close>

definition from_first_use :: "notebook \<Rightarrow> code_cell list" where
  "from_first_use nb =
     dropWhile (\<lambda>c. \<not> list_ex uses_library (source c)) (code_cells (nb_cells nb))"

subsection \<open>The notebooks\<close>

definition loading_numpy :: notebook where
  "loading_numpy = \<lparr>nb_path = ''demos/basics/loading-numpy.ipynb'', nb_cells =
    [Markdown, Markdown, Markdown,
     cloud_runner_cell,
     version_check_cell,
     code 3 [] None [FromImport ''stellargraph'' [''StellarGraph'']],
     Markdown,
     code 4 [] None [Import ''numpy'' (Some ''np''), Import ''pandas'' (Some ''pd'')],
     Markdown,
     code 5 [] (Some 5) [Other, Other],
     Markdown,
     code 6 [] (Some 6) [Other, Other],
     Markdown,
     code 7 [] None [LibCall ''StellarGraph'' 2 []],
     Markdown,
     code 8 [] None [LibCall ''square_numeric.info'' 0 []],
     Markdown,
     code 9 [] None
       [LibCall ''StellarGraph'' 2 [''node_type_default'', ''edge_type_default''],
        LibCall ''square_numeric_named.info'' 0 []],
     Markdown,
     code 10 [] (Some 10) [Other, Other],
     Markdown,
     code 11 [] None [FromImport ''stellargraph'' [''IndexedArray'']],
     code 12 [] None [LibCall ''IndexedArray'' 1 [''index'']],
     code 13 [] None
       [LibCall ''StellarGraph'' 2 [''node_type_default'', ''edge_type_default''],
        LibCall ''square_named.info'' 0 []],
     Markdown, Markdown,
     code 14 [] (Some 14) [Other, Other],
     code 15 [] None [LibCall ''IndexedArray'' 1 [''index'']],
     code 16 [] None
       [LibCall ''StellarGraph'' 2 [''node_type_default'', ''edge_type_default''],
        LibCall ''square_tensors.info'' 0 []],
     Markdown, Markdown,
     code 17 [] None [LibCall ''IndexedArray'' 0 [''index'']],
     code 18 [] (Some 18) [Other, Other],
     code 19 [] None [LibCall ''IndexedArray'' 1 [''index'']],
     Markdown,
     code 20 [] None [LibCall ''StellarGraph'' 2 [], LibCall ''square_foo_and_bar.info'' 0 []],
     Markdown,
     code 21 [] None [LibCall ''IndexedArray'' 0 [''index'']],
     code 22 [] None [],
     Markdown,
     code 23 [] None [LibCall ''IndexedArray'' 1 [''index'']],
     code 24 [] None [LibCall ''IndexedArray'' 1 [''index'']],
     Markdown,
     code 25 [] (Some 25) [Other, Other],
     code 26 [] None [LibCall ''IndexedArray'' 1 [''index'']],
     code 27 [] None
       [LibCall ''StellarGraph'' 2 [], LibCall ''square_foo_tensors_and_bar.info'' 0 []],
     Markdown, Markdown, Markdown]\<rparr>"

definition load_cora_into_neo4j :: notebook where
  "load_cora_into_neo4j = \<lparr>nb_path = ''demos/connector/neo4j/load-cora-into-neo4j.ipynb'',
    nb_cells =
    [Markdown, Markdown, Markdown,
     cloud_runner_cell,
     version_check_cell,
     code 3 [] None
       [Import ''pandas'' (Some ''pd''), Import ''os'' None,
        FromImport ''stellargraph'' [''datasets''],
        FromImport ''IPython.display'' [''display'', ''HTML'']],
     Markdown, Markdown,
     code 4 [''DataLoading''] None
       [LibCall ''datasets.Cora'' 0 [], Other, LibCall ''dataset.download'' 0 []],
     code 5 [] None [Other, Other],
     code 6 [] None [Other],
     code 7 [] None [Other, Other, Other],
     Markdown,
     code 8 [] (Some 8) [Other, Other, Other, Other],
     Markdown,
     code 9 [] None [Import ''time'' None],
     code 10 [] None [Import ''py2neo'' None, Other, Other],
     Markdown,
     code 11 [] None [Other, Other, Other],
     Markdown,
     code 12 [] None [Other, Other, Other, Other],
     Markdown,
     code 13 [] None [Other, Other, Other],
     Markdown,
     code 14 [] None [Other, Other, Other],
     Markdown,
     code 15 [] None [Other, Other, Other],
     Markdown]\<rparr>"

definition gcn_supervised_graph_classification :: notebook where
  "gcn_supervised_graph_classification =
    \<lparr>nb_path = ''demos/graph-classification/gcn-supervised-graph-classification.ipynb'',
    nb_cells =
    [Markdown, Markdown, Markdown,
     cloud_runner_cell,
     version_check_cell,
     code 3 [] None
       [Import ''pandas'' (Some ''pd''), Import ''numpy'' (Some ''np''),
        Import ''stellargraph'' (Some ''sg''),
        FromImport ''stellargraph.mapper'' [''PaddedGraphGenerator''],
        FromImport ''stellargraph.layer'' [''GCNSupervisedGraphClassification''],
        FromImport ''stellargraph'' [''StellarGraph''],
        FromImport ''stellargraph'' [''datasets''],
        FromImport ''sklearn'' [''model_selection''],
        FromImport ''IPython.display'' [''display'', ''HTML''],
        FromImport ''tensorflow.keras'' [''Model''],
        FromImport ''tensorflow.keras.optimizers'' [''Adam''],
        FromImport ''tensorflow.keras.layers'' [''Dense''],
        FromImport ''tensorflow.keras.losses'' [''binary_crossentropy''],
        FromImport ''tensorflow.keras.callbacks'' [''EarlyStopping''],
        Import ''tensorflow'' (Some ''tf''),
        Import ''matplotlib.pyplot'' (Some ''plt'')],
     Markdown, Markdown,
     code 4 [''DataLoading''] None
       [LibCall ''datasets.MUTAG'' 0 [], Other, LibCall ''dataset.load'' 0 []],
     Markdown,
     code 5 [] None [LibCall ''graphs[0].info'' 0 []],
     code 6 [] None [LibCall ''graphs[1].info'' 0 []],
     Markdown,
     code 7 [] (Some 6)
       [LibCall ''g.number_of_nodes'' 0 [], LibCall ''g.number_of_edges'' 0 [], Other],
     Markdown,
     code 8 [] (Some 7) [Other],
     code 9 [] None [Other],
     Markdown,
     code 10 [] None [LibCall ''PaddedGraphGenerator'' 0 [''graphs'']],
     Markdown, Markdown,
     code 11 [] None
       [LibCall ''GCNSupervisedGraphClassification'' 0
          [''layer_sizes'', ''activations'', ''generator'', ''dropout''],
        LibCall ''gc_model.in_out_tensors'' 0 []],
     Markdown,
     code 12 [''parameters''] None [Other, Other, Other],
     code 13 [] None [Other],
     Markdown,
     code 14 [] None [Other],
     code 15 [] None
       [LibCall ''generator.flow'' 1 [''targets'', ''batch_size''],
        LibCall ''generator.flow'' 1 [''targets'', ''batch_size'']],
     Markdown,
     code 16 [] None [Other, Other, Other],
     code 17 [] None [Other],
     Markdown,
     code 18 [] (Some 14) [Other, Other, Other, Other],
     Markdown, Markdown]\<rparr>"

definition loading_networkx :: notebook where
  "loading_networkx = \<lparr>nb_path = ''demos/basics/loading-networkx.ipynb'', nb_cells =
    [Markdown, Markdown, Markdown,
     cloud_runner_cell,
     version_check_cell,
     code 3 [] None [FromImport ''stellargraph'' [''StellarGraph'']],
     Markdown,
     code 4 [] None [Import ''networkx'' (Some ''nx'')],
     Markdown,
     code 5 [] None [Other, Other, Other, Other, Other, Other],
     Markdown,
     code 6 [] None [LibCall ''StellarGraph.from_networkx'' 1 []],
     Markdown,
     code 7 [] None [LibCall ''square.info'' 0 []],
     Markdown,
     code 8 [] None
       [LibCall ''StellarGraph.from_networkx'' 1 [''node_type_default'', ''edge_type_default''],
        LibCall ''square_named.info'' 0 []],
     Markdown,
     code 9 [] (Some 9) [Other, Other, Other, Other],
     Markdown,
     code 10 [] None
       [LibCall ''StellarGraph.from_networkx'' 1 [''node_features''],
        LibCall ''square_feature_attr.info'' 0 []],
     Markdown, Markdown,
     code 11 [] (Some 11) [Import ''pandas'' (Some ''pd''), Other, Other],
     Markdown,
     code 12 [] None
       [LibCall ''StellarGraph.from_networkx'' 1 [''node_features''],
        LibCall ''square_feature_dataframe.info'' 0 []],
     Markdown, Markdown,
     code 13 [] None
       [Other, Other, Other, Other, Other, Other,
        LibCall ''StellarGraph.from_networkx'' 1 [],
        LibCall ''square_weighted.info'' 0 []],
     Markdown,
     code 14 [] None
       [Other, Other, Other, Other, Other, Other,
        LibCall ''StellarGraph.from_networkx'' 1 [''edge_weight_attr''],
        LibCall ''square_weighted.info'' 0 []],
     Markdown,
     code 15 [] None
       [Other, Other, Other, Other, Other, Other,
        LibCall ''StellarGraph.from_networkx'' 1 [],
        LibCall ''square_directed.info'' 0 []],
     Markdown,
     code 16 [] None
       [Other, Other,
        LibCall ''StellarGraph.from_networkx'' 1 [],
        LibCall ''square_foo_bar.info'' 0 []],
     Markdown,
     code 17 [] None
       [Other, Other,
        LibCall ''StellarGraph.from_networkx'' 1 [''node_type_default''],
        LibCall ''square_foo_bar_default.info'' 0 []],
     Markdown,
     code 18 [] None
       [Other, Other,
        LibCall ''StellarGraph.from_networkx'' 1 [''node_type_default'', ''node_type_attr''],
        LibCall ''square_foo_bar_other.info'' 0 []],
     Markdown,
     code 19 [] None [Other, Other],
     code 20 [] None
       [LibCall ''StellarGraph.from_networkx'' 1 [''node_features''],
        LibCall ''square_foo_bar_features_attr.info'' 0 []],
     Markdown,
     code 21 [] (Some 21) [Other, Other],
     code 22 [] None
       [LibCall ''StellarGraph.from_networkx'' 1 [''node_features''],
        LibCall ''square_foo_bar_features_dataframe.info'' 0 []],
     Markdown,
     code 23 [] None [Other, Other, Other, Other, Other, Other],
     code 24 [] None
       [LibCall ''StellarGraph.from_networkx'' 1 [],
        LibCall ''square_orientation.info'' 0 []],
     Markdown,
     code 25 [] None [Other, Other],
     code 26 [] None
       [LibCall ''StellarGraph.from_networkx'' 1 [''node_features''],
        LibCall ''stellar_everything.info'' 0 []],
     Markdown, Markdown]\<rparr>"

definition demo_notebooks :: "notebook list" where
  "demo_notebooks =
     [loading_numpy, load_cora_into_neo4j, gcn_supervised_graph_classification,
      loading_networkx]"

text \<open>The recorded execution counts of a notebook's code cells, in document order.\<close>

definition execution_counts :: "notebook \<Rightarrow> nat option list" where
  "execution_counts nb = map execution_count (code_cells (nb_cells nb))"

text \<open>
  A kernel that executes the code cells one at a time, in document order, each once and
  each to its end before the next, numbers them as it goes: the \<open>k\<close>-th execution writes
  \<open>k\<close> into the cell and into the cell's result, if it has one. \<open>run_in_order k\<close> is the
  numbering that such a pass starting at \<open>k\<close> writes. A notebook file is the record of one
  such pass from a fresh kernel when the pass would write the numbers the file has.
\<close>

fun run_in_order :: "nat \<Rightarrow> cell list \<Rightarrow> cell list" where
  "run_in_order k [] = []"
| "run_in_order k (Markdown # cs) = Markdown # run_in_order k cs"
| "run_in_order k (Code c # cs) =
     Code (c\<lparr>execution_count := Some k,
              result_count := (case result_count c of None \<Rightarrow> None | Some r \<Rightarrow> Some k)\<rparr>)
     # run_in_order (Suc k) cs"

definition in_order_record :: "notebook \<Rightarrow> bool" where
  "in_order_record nb = (run_in_order 1 (nb_cells nb) = nb_cells nb)"


text \<open>All statements of the notebooks' code cells, the calls of a callable among them
  (number of positional arguments, keyword names), and whether some cell calls a callable
  with a given number of positional arguments and exactly the given keyword arguments.\<close>

definition all_statements :: "notebook list \<Rightarrow> stmt list" where
  "all_statements nbs = concat (map (\<lambda>nb. concat (map source (code_cells (nb_cells nb)))) nbs)"

fun calls_of :: "string \<Rightarrow> stmt \<Rightarrow> (nat \<times> string list) list" where
  "calls_of f (LibCall g n ks) = (if g = f then [(n, ks)] else [])"
| "calls_of f s = []"

definition calls :: "notebook list \<Rightarrow> string \<Rightarrow> (nat \<times> string list) list" where
  "calls nbs f = concat (map (calls_of f) (all_statements nbs))"

definition invoked :: "notebook list \<Rightarrow> string \<Rightarrow> nat \<Rightarrow> string list \<Rightarrow> bool" where
  "invoked nbs f n ks = list_ex (\<lambda>c. c = (n, ks)) (calls nbs f)"

text \<open>Whether a call passes a keyword.\<close>

definition passes :: "string \<Rightarrow> nat \<times> string list \<Rightarrow> bool" where
  "passes k c = (k \<in> set (snd c))"

section \<open>The library's constructors, as the notebooks use them\<close>

text \<open>
  Modelled from the spec: \<^verbatim>\<open>IndexedArray\<close>, \<^verbatim>\<open>StellarGraph\<close> and \<^verbatim>\<open>info\<close>, which are defined in
  modules of the library that are missing; the notebooks call them, describe their
  contract in prose and record what they printed. All definitions of this section follow
  the spec and that description. The sample data at its end is the data of the
  loading-numpy notebook.
\<close>

subsection \<open>Data\<close>

text \<open>Node identifiers are the integers and strings the notebooks use. A feature array is
  a list of rows (its first-axis entries); a row is a vector or a tensor of numbers.\<close>

datatype node_id = IntId int | StrId string

datatype tensor = Scalar real | Tensor "tensor list"

record indexed_array =
  ia_values :: "tensor list"
  ia_index :: "node_id list"

text \<open>A row of an edge table: the \<^verbatim>\<open>source\<close> and \<^verbatim>\<open>target\<close> columns.\<close>

record edge =
  edge_source :: node_id
  edge_target :: node_id

datatype lib_error =
    IndexLengthMismatch nat nat
  | NodeIdsNotUnique "node_id list"

subsection \<open>IndexedArray\<close>

text \<open>
  Modelled from the spec: the constructor \<^verbatim>\<open>IndexedArray(values, index=...)\<close> of the library's
  labelled-array type, whose module is missing. The spec calls it the type that attaches
  row identifiers to raw numeric feature arrays; the loading-numpy notebook says that the
  index defines the mapping from row to node and should have one element per row of the
  array. Called without values (\<^verbatim>\<open>IndexedArray(index=["a"])\<close> in the notebook) it has one row
  without features per index element.
\<close>

definition IndexedArray :: "tensor list option \<Rightarrow> node_id list \<Rightarrow> lib_error + indexed_array" where
  "IndexedArray vals index =
     (case vals of
        None \<Rightarrow> Inr \<lparr>ia_values = replicate (length index) (Tensor []), ia_index = index\<rparr>
      | Some vs \<Rightarrow>
          if length index = length vs then Inr \<lparr>ia_values = vs, ia_index = index\<rparr>
          else Inl (IndexLengthMismatch (length index) (length vs)))"

text \<open>The identifier of row \<open>i\<close>, and the row of an identifier.\<close>

definition row_id :: "indexed_array \<Rightarrow> nat \<Rightarrow> node_id option" where
  "row_id a i = (if i < length (ia_index a) then Some (ia_index a ! i) else None)"

definition row_of :: "indexed_array \<Rightarrow> node_id \<Rightarrow> tensor option" where
  "row_of a n = map_of (zip (ia_index a) (ia_values a)) n"

subsection \<open>StellarGraph\<close>

text \<open>
  The node argument is a raw feature array (the nodes are then numbered from 0), one
  indexed array, or a dictionary from node type to indexed array; the edge argument is
  one edge table or a dictionary from edge type to edge table. A dictionary is the list
  of its items; its keys are distinct.
\<close>

datatype nodes_arg =
    Array "tensor list"
  | Indexed indexed_array
  | NodeTypes "(string \<times> indexed_array) list"

datatype edges_arg =
    Frame "edge list"
  | EdgeTypes "(string \<times> edge list) list"

record stellar_graph =
  sg_nodes :: "(string \<times> indexed_array) list"
  sg_edges :: "(string \<times> edge list) list"

text \<open>The identifiers of a node type that a later node type of the dictionary has too.\<close>

fun shared_ids :: "(string \<times> indexed_array) list \<Rightarrow> node_id list" where
  "shared_ids [] = []"
| "shared_ids (ta # rest) =
     filter (\<lambda>n. list_ex (\<lambda>tb. n \<in> set (ia_index (snd tb))) rest) (ia_index (snd ta))
     @ shared_ids rest"

definition type_name :: "string option \<Rightarrow> string" where
  "type_name d = (case d of None \<Rightarrow> ''default'' | Some n \<Rightarrow> n)"

text \<open>
  Modelled from the spec: the constructor \<^verbatim>\<open>StellarGraph(nodes, edges, node_type_default=...,
  edge_type_default=...)\<close> of the library's graph type, whose module is missing. The spec
  says that constructing a heterogeneous graph with duplicate node identifiers across
  types raises an error and that a homogeneous graph has exactly one node type and one
  edge type; the loading-numpy notebook says that node identifiers need to be unique
  across all types, and that the node and edge type of a homogeneous graph default to
  \<^verbatim>\<open>default\<close> and can be set with the two parameters (\<open>None\<close> is a parameter left out).
\<close>

definition StellarGraph ::
  "nodes_arg \<Rightarrow> edges_arg \<Rightarrow> string option \<Rightarrow> string option \<Rightarrow> lib_error + stellar_graph" where
  "StellarGraph nodes edges node_type_default edge_type_default =
     (let ns = (case nodes of
                  Array rows \<Rightarrow>
                    [(type_name node_type_default,
                      \<lparr>ia_values = rows, ia_index = map (\<lambda>i. IntId (int i)) [0..<length rows]\<rparr>)]
                | Indexed a \<Rightarrow> [(type_name node_type_default, a)]
                | NodeTypes d \<Rightarrow> d);
          es = (case edges of
                  Frame rows \<Rightarrow> [(type_name edge_type_default, rows)]
                | EdgeTypes d \<Rightarrow> d)
      in if shared_ids ns = [] then Inr \<lparr>sg_nodes = ns, sg_edges = es\<rparr>
         else Inl (NodeIdsNotUnique (shared_ids ns)))"

text \<open>
  Modelled from the spec: the summary \<^verbatim>\<open>info()\<close> of the library's graph type, whose module is
  missing, after the outputs recorded in the notebooks. The summary gives the numbers of
  nodes and edges; under \<^verbatim>\<open>Node types\<close>, every node type with the number of its nodes and
  the edge types its nodes take part in; under \<^verbatim>\<open>Edge types\<close>, every triple of source node
  type, edge type and target node type that occurs among the edges, with the number of its
  edges. An edge type is printed as \<^verbatim>\<open>source-type->target\<close>. Node types and edge types
  stand in decreasing order of their numbers and, among equal numbers, of their names; the
  edge types of a node type stand in increasing order. The lines on features and weights
  are left out.
\<close>

type_synonym edge_type = "string \<times> string \<times> string"

fun node_type_of :: "(string \<times> indexed_array) list \<Rightarrow> node_id \<Rightarrow> string option" where
  "node_type_of [] n = None"
| "node_type_of (ta # rest) n =
     (if n \<in> set (ia_index (snd ta)) then Some (fst ta) else node_type_of rest n)"

text \<open>The edge type of a row of an edge table. The material shows no graph with an edge
  to a node outside its node arrays; such a row counts as an edge and has no edge type.\<close>

definition edge_type_of :: "(string \<times> indexed_array) list \<Rightarrow> string \<Rightarrow> edge \<Rightarrow> edge_type option" where
  "edge_type_of ns t e =
     (case node_type_of ns (edge_source e) of
        None \<Rightarrow> None
      | Some s \<Rightarrow>
          (case node_type_of ns (edge_target e) of
             None \<Rightarrow> None
           | Some u \<Rightarrow> Some (s, t, u)))"

definition edge_types_of :: "stellar_graph \<Rightarrow> edge_type list" where
  "edge_types_of g =
     concat (map (\<lambda>te. List.map_filter (edge_type_of (sg_nodes g) (fst te)) (snd te))
       (sg_edges g))"

text \<open>The entries of a list with the number of their occurrences, the most frequent
  first.\<close>

definition by_frequency :: "'a::linorder list \<Rightarrow> ('a \<times> nat) list" where
  "by_frequency xs =
     map (\<lambda>cx. (snd cx, fst cx)) (rev (sort (map (\<lambda>x. (count_list xs x, x)) (remdups xs))))"

text \<open>The edge types that the nodes of a type take part in, read from that node type.\<close>

definition edge_types_at :: "string \<Rightarrow> edge_type list \<Rightarrow> edge_type list" where
  "edge_types_at n ts =
     sort (remdups (concat (map (\<lambda>stu.
       (if fst stu = n then [stu] else []) @
       (if snd (snd stu) = n then [(n, fst (snd stu), fst stu)] else [])) ts)))"

record graph_info =
  info_nodes :: nat
  info_edges :: nat
  info_node_types :: "(string \<times> nat \<times> edge_type list) list"
  info_edge_types :: "(edge_type \<times> nat) list"

definition info :: "stellar_graph \<Rightarrow> graph_info" where
  "info g =
     \<lparr>info_nodes = sum_list (map (\<lambda>ta. length (ia_index (snd ta))) (sg_nodes g)),
      info_edges = sum_list (map (\<lambda>te. length (snd te)) (sg_edges g)),
      info_node_types =
        map (\<lambda>cn. (snd cn, fst cn, edge_types_at (snd cn) (edge_types_of g)))
          (rev (sort (map (\<lambda>ta. (length (ia_index (snd ta)), fst ta)) (sg_nodes g)))),
      info_edge_types = by_frequency (edge_types_of g)\<rparr>"



text \<open>Some node identifier is in the index of more than one node type of a dictionary.\<close>

definition ids_overlap :: "(string \<times> indexed_array) list \<Rightarrow> bool" where
  "ids_overlap d =
     (\<exists>ta \<in> set d. \<exists>tb \<in> set d. fst ta \<noteq> fst tb \<and>
        (\<exists>n. n \<in> set (ia_index (snd ta)) \<and> n \<in> set (ia_index (snd tb))))"

subsection \<open>The data of the loading-numpy notebook\<close>


definition square_edges :: "edge list" where
  "square_edges =
     map (\<lambda>st. \<lparr>edge_source = StrId (fst st), edge_target = StrId (snd st)\<rparr>)
       (zip [''a'', ''b'', ''c'', ''d'', ''a''] [''b'', ''c'', ''d'', ''a'', ''c''])"

definition vec :: "real list \<Rightarrow> tensor" where
  "vec xs = Tensor (map Scalar xs)"

definition feature_array :: "tensor list" where
  "feature_array = [vec [1, -0.2], vec [2, 0.3], vec [3, 0], vec [4, -0.5]]"

definition bar_features :: "tensor list" where
  "bar_features = [vec [0.4, 100], vec [0.1, 200], vec [0.9, 300]]"

definition str_ids :: "string list \<Rightarrow> node_id list" where
  "str_ids xs = map StrId xs"

definition indexed_array_value :: indexed_array where
  "indexed_array_value = \<lparr>ia_values = feature_array, ia_index = str_ids [''a'', ''b'', ''c'', ''d'']\<rparr>"

definition square_foo :: indexed_array where
  "square_foo = \<lparr>ia_values = [Tensor []], ia_index = str_ids [''a'']\<rparr>"

definition square_bar :: indexed_array where
  "square_bar = \<lparr>ia_values = bar_features, ia_index = str_ids [''b'', ''c'', ''d'']\<rparr>"

definition square_foo_overlap :: indexed_array where
  "square_foo_overlap = \<lparr>ia_values = [Tensor []], ia_index = str_ids [''b'']\<rparr>"

section \<open>Properties of the workflow\<close>

subsection \<open>Matrix expansion of a one-axis job\<close>

lemma combinations_single: "combinations [(k, vs)] = map (\<lambda>v. [(k, v)]) vs"
  by (induction vs) simp_all

lemma excluded_by_single: "excluded_by [(k, v)] [(k, n)] = (v = n)"
  by (simp add: excluded_by_def)

lemma excluded_single_axis:
  "list_ex (excluded_by [(k, v)]) (map (\<lambda>n. [(k, n)]) ex) = (v \<in> set ex)"
  by (induction ex) (auto simp add: excluded_by_single)

lemma single_axis_instances:
  assumes "job_matrix j = [(k, vs)]" and "job_exclude j = map (\<lambda>n. [(k, n)]) ex"
  shows "job_instances j = map (\<lambda>v. [(k, v)]) (filter (\<lambda>v. v \<notin> set ex) vs)"
  unfolding job_instances_def assms combinations_single
  by (simp add: filter_map comp_def excluded_single_axis)

lemma single_axis_removed:
  assumes "distinct vs" and "n \<in> set vs"
  shows "length (filter (\<lambda>c. excluded_by c [(k, n)]) (combinations [(k, vs)])) = 1"
proof -
  have "filter (\<lambda>c. excluded_by c [(k, n)]) (combinations [(k, vs)])
      = map (\<lambda>v. [(k, v)]) (filter (\<lambda>v. v = n) vs)"
    by (simp add: combinations_single filter_map comp_def excluded_by_single)
  moreover have "length (filter (\<lambda>v. v = n) vs) = 1"
    using assms by (induction vs) (auto simp add: filter_empty_conv)
  ultimately show ?thesis by simp
qed

lemma notebooks_instances:
  "job_instances notebooks =
     map (\<lambda>n. [(''notebook'', n)])
       (filter (\<lambda>n. n \<notin> set excluded_notebooks) notebook_list)"
  by (rule single_axis_instances) (simp_all add: notebooks_def)


lemma notebook_list_distinct: "distinct notebook_list"
  by code_simp

lemma exclude_distinct: "distinct excluded_notebooks"
  by code_simp

lemma exclude_in_list: "set excluded_notebooks \<subseteq> set notebook_list"
  by code_simp

lemma length_notebook_list: "length notebook_list = 56"
  by (simp add: notebook_list_def)

lemma length_exclude:
  "length exclude_neo4j = 5" "length exclude_not_on_ci = 8" "length excluded_notebooks = 13"
  by (simp_all add: exclude_neo4j_def exclude_not_on_ci_def excluded_notebooks_def)

lemma length_not_excluded:
  "length (filter (\<lambda>n. n \<notin> set excluded_notebooks) notebook_list) = 43"
  by code_simp

lemma plain_patterns: "plain_pattern ''develop''" "plain_pattern ''master''"
  by (simp_all add: plain_pattern_def)

subsection \<open>Steps that always run\<close>

lemma outcome_of_always:
  "outcome_of n ss (run_steps ok i failed ss) = Some r \<Longrightarrow>
   list_all (\<lambda>s. step_name s = Some n \<longrightarrow> step_if s = Always) ss \<Longrightarrow> r \<noteq> Skipped"
proof (induction ss arbitrary: i failed)
  case Nil
  then show ?case by simp
next
  case (Cons s ss)
  then show ?case
    by (auto split: if_splits)
qed

lemma outcome_of_named:
  "list_ex (\<lambda>s. step_name s = Some n) ss \<Longrightarrow>
   \<exists>r. outcome_of n ss (run_steps ok i failed ss) = Some r"
proof (induction ss arbitrary: i failed)
  case Nil
  then show ?case by simp
next
  case (Cons s ss)
  then show ?case by auto
qed

lemma always_step_runs:
  assumes "list_ex (\<lambda>s. step_name s = Some n) (job_steps j)"
    and "list_all (\<lambda>s. step_name s = Some n \<longrightarrow> step_if s = Always) (job_steps j)"
  shows "\<exists>r. outcome_of n (job_steps j) (run_job ok j) = Some r \<and> r \<noteq> Skipped"
  using outcome_of_named [OF assms(1)] outcome_of_always [OF _ assms(2)]
  unfolding run_job_def by blast

lemmas step_defs = checkout_def setup_python_def restore_cache_def install_dependencies_def
  run_pytest_def upload_pytest_results_def upload_coverage_def run_notebook_def
  upload_artifact_def

lemma build_upload_runs:
  "\<exists>r. outcome_of ''Upload pytest test results'' (job_steps build) (run_job ok build) = Some r
       \<and> r \<noteq> Skipped"
  by (rule always_step_runs) (simp_all add: build_def step_defs)

lemma notebooks_upload_runs:
  "\<exists>r. outcome_of ''Upload artifact'' (job_steps notebooks) (run_job ok notebooks) = Some r
       \<and> r \<noteq> Skipped"
  by (rule always_step_runs) (simp_all add: notebooks_def step_defs)

text \<open>The coverage upload has the default condition: it is skipped when the tests fail.\<close>

lemma coverage_upload_skipped:
  "outcome_of ''Upload coverage to Codecov'' (job_steps build) (run_job (\<lambda>i. i \<noteq> 4) build)
     = Some Skipped"
  by (simp add: run_job_def build_def step_defs)

lemma pytest_results_path:
  "artifact_path upload_pytest_results c e
     = Some (''pytest-results-'' @ matrix_value c ''python-version'' @ ''.xml'')"
  by (simp add: artifact_path_def with_value_def upload_pytest_results_def)

lemma junit_file_path:
  "junit_file c = Some (''pytest-results-'' @ matrix_value c ''python-version'' @ ''.xml'')"
  by (simp add: junit_file_def pytest_command_def)

lemma notebook_artifact_path:
  "artifact_path upload_artifact c e = Some (matrix_value c ''notebook'')"
  by (simp add: artifact_path_def with_value_def upload_artifact_def)

lemma papermill_output_path: "papermill_output c = Some (matrix_value c ''notebook'')"
  by (simp add: papermill_output_def papermill_command_def)

subsection \<open>Jobs, triggers, uploads and exclusions\<close>










text \<open>
  C4, as amended. The workflow runs for every push to the branch \<^verbatim>\<open>develop\<close> or \<^verbatim>\<open>master\<close> and
  for every pull request, whatever its base branch; it runs for no other push.
\<close>

theorem workflow_triggers:
  "workflow_runs ev =
     (case ev of
        Push r \<Rightarrow> r = Branch ''develop'' \<or> r = Branch ''master''
      | PullRequest base \<Rightarrow> True)"
proof (cases ev)
  case (Push r)
  then show ?thesis
    by (cases r) (auto simp add: workflow_runs_def ci_workflow_def branch_matches_def)
next
  case (PullRequest base)
  then show ?thesis
    by (simp add: workflow_runs_def ci_workflow_def)
qed

theorem workflow_triggers_witness:
  "workflow_runs (Push (Branch ''master'')) \<and> workflow_runs (PullRequest ''feature'')"
  using workflow_triggers [of "Push (Branch ''master'')"]
    workflow_triggers [of "PullRequest ''feature''"]
  by simp

text \<open>C4 as stated fails: a push to a branch other than the two does not run the workflow.\<close>

theorem workflow_triggers_counterexample:
  "\<not> workflow_runs (Push (Branch ''feature''))"
  by (simp add: workflow_runs_def ci_workflow_def branch_matches_def)

text \<open>
  C7. The test job ends with the upload of the pytest results, an artifact upload, and the
  upload of the coverage to Codecov; the notebook job ends with the upload of the notebook,
  an artifact upload. The file the test job uploads is the per-version results file that
  the pytest step writes, and the file the notebook job uploads is the notebook that
  papermill has executed in place. Whatever steps fail, the two artifact uploads are not
  skipped.
\<close>

theorem upload_steps:
  "drop 5 (job_steps build) = [upload_pytest_results, upload_coverage]
   \<and> step_uses upload_pytest_results = Some ''actions/upload-artifact@v1''
   \<and> step_uses upload_coverage = Some ''codecov/codecov-action@v1''
   \<and> last (job_steps notebooks) = upload_artifact
   \<and> step_uses upload_artifact = Some ''actions/upload-artifact@v1''
   \<and> artifact_path upload_pytest_results c e
       = Some (''pytest-results-'' @ matrix_value c ''python-version'' @ ''.xml'')
   \<and> junit_file c = artifact_path upload_pytest_results c e
   \<and> artifact_path upload_artifact c e = Some (matrix_value c ''notebook'')
   \<and> papermill_output c = artifact_path upload_artifact c e
   \<and> step_if upload_pytest_results = Always \<and> step_if upload_artifact = Always
   \<and> (\<exists>r. outcome_of ''Upload pytest test results'' (job_steps build) (run_job ok build) = Some r
         \<and> r \<noteq> Skipped)
   \<and> (\<exists>r. outcome_of ''Upload artifact'' (job_steps notebooks) (run_job ok notebooks) = Some r
         \<and> r \<noteq> Skipped)"
proof -
  have "drop 5 (job_steps build) = [upload_pytest_results, upload_coverage]"
    by (simp add: build_def)
  moreover have "last (job_steps notebooks) = upload_artifact"
    by (simp add: notebooks_def)
  moreover have "step_uses upload_pytest_results = Some ''actions/upload-artifact@v1''"
    "step_uses upload_coverage = Some ''codecov/codecov-action@v1''"
    "step_uses upload_artifact = Some ''actions/upload-artifact@v1''"
    "step_if upload_pytest_results = Always" "step_if upload_artifact = Always"
    by (simp_all add: step_defs)
  ultimately show ?thesis
    using build_upload_runs [of ok] notebooks_upload_runs [of ok]
    by (simp add: pytest_results_path junit_file_path notebook_artifact_path
        papermill_output_path)
qed

theorem upload_steps_witness:
  "artifact_path upload_pytest_results [(''python-version'', ''3.7'')] [] = Some ''pytest-results-3.7.xml''
   \<and> outcome_of ''Upload pytest test results'' (job_steps build) (run_job (\<lambda>i. i \<noteq> 4) build)
       = Some Succeeded
   \<and> outcome_of ''Upload artifact'' (job_steps notebooks) (run_job (\<lambda>i. i \<noteq> 4) notebooks)
       = Some Succeeded"
proof -
  have "outcome_of ''Upload pytest test results'' (job_steps build) (run_job (\<lambda>i. i \<noteq> 4) build)
       = Some Succeeded"
    by (simp add: run_job_def build_def step_defs)
  moreover have "outcome_of ''Upload artifact'' (job_steps notebooks) (run_job (\<lambda>i. i \<noteq> 4) notebooks)
       = Some Succeeded"
    by (simp add: run_job_def notebooks_def step_defs)
  ultimately show ?thesis
    using upload_steps [of "[(''python-version'', ''3.7'')]" "[]" "\<lambda>i. i \<noteq> 4"]
    by (simp add: matrix_value_def)
qed

text \<open>
  C10, as amended. Every notebook that the exclude list of the notebook job names is in the
  job's matrix list; the two lists have no repeated entry, so each exclusion removes
  exactly one combination of the matrix. The exclusions are the five notebooks that
  require Neo4j and the eight notebooks that do not yet run on CI.
\<close>

theorem exclusions_well_formed:
  "job_matrix notebooks = [(''notebook'', notebook_list)]
   \<and> job_exclude notebooks = map (\<lambda>n. [(''notebook'', n)]) excluded_notebooks
   \<and> excluded_notebooks = exclude_neo4j @ exclude_not_on_ci
   \<and> set excluded_notebooks \<subseteq> set notebook_list
   \<and> distinct notebook_list
   \<and> distinct excluded_notebooks
   \<and> (x \<in> set (job_exclude notebooks) \<longrightarrow>
        length (filter (\<lambda>c. excluded_by c x) (combinations (job_matrix notebooks))) = 1)
   \<and> length exclude_neo4j = 5
   \<and> length exclude_not_on_ci = 8
   \<and> length (job_instances notebooks) + 13 = length notebook_list"
proof -
  have m: "job_matrix notebooks = [(''notebook'', notebook_list)]"
    and e: "job_exclude notebooks = map (\<lambda>n. [(''notebook'', n)]) excluded_notebooks"
    by (simp_all add: notebooks_def)
  have r: "length (filter (\<lambda>c. excluded_by c x) (combinations (job_matrix notebooks))) = 1"
    if "x \<in> set (job_exclude notebooks)"
  proof -
    from that obtain n where n: "n \<in> set excluded_notebooks"
      and x: "x = [(''notebook'', n)]"
      unfolding e by auto
    from n exclude_in_list have "n \<in> set notebook_list" by blast
    then show ?thesis
      unfolding m x by (rule single_axis_removed [OF notebook_list_distinct])
  qed
  have "length (job_instances notebooks) + 13 = length notebook_list"
    by (simp add: notebooks_instances length_not_excluded length_notebook_list)
  then show ?thesis
    using m e r exclude_in_list notebook_list_distinct exclude_distinct length_exclude
      excluded_notebooks_def
    by simp
qed

theorem exclusions_well_formed_witness:
  "[(''notebook'', ''demos/connector/neo4j/load-cora-into-neo4j.ipynb'')] \<in> set (job_exclude notebooks)
   \<and> length (filter (\<lambda>c. excluded_by c [(''notebook'', ''demos/connector/neo4j/load-cora-into-neo4j.ipynb'')])
        (combinations (job_matrix notebooks))) = 1"
proof -
  have "[(''notebook'', ''demos/connector/neo4j/load-cora-into-neo4j.ipynb'')] \<in> set (job_exclude notebooks)"
    by (simp add: notebooks_def excluded_notebooks_def exclude_neo4j_def)
  moreover from exclusions_well_formed
    [of "[(''notebook'', ''demos/connector/neo4j/load-cora-into-neo4j.ipynb'')]"]
  have "[(''notebook'', ''demos/connector/neo4j/load-cora-into-neo4j.ipynb'')]
          \<in> set (job_exclude notebooks) \<longrightarrow>
        length (filter (\<lambda>c. excluded_by c [(''notebook'', ''demos/connector/neo4j/load-cora-into-neo4j.ipynb'')])
          (combinations (job_matrix notebooks))) = 1"
    by (elim conjE)
  ultimately show ?thesis
    by blast
qed

text \<open>C10 as stated fails: the second group of exclusions has eight notebooks, not seven.\<close>

theorem exclusions_well_formed_counterexample:
  "\<not> (set excluded_notebooks \<subseteq> set notebook_list
      \<and> length exclude_neo4j = 5 \<and> length exclude_not_on_ci = 7)"
  by (simp add: length_exclude)

section \<open>Properties of the notebooks\<close>

lemmas cell_defs = code_def cloud_runner_cell_def version_check_cell_def










text \<open>The record of a pass in document order has the execution counts 1, 2, 3, ...\<close>

lemma run_in_order_counts:
  "map execution_count (code_cells (run_in_order k cs))
     = map Some [k..<k + length (code_cells cs)]"
proof (induction k cs rule: run_in_order.induct)
  case (1 k)
  then show ?case by simp
next
  case (2 k cs)
  then show ?case by simp
next
  case (3 k c cs)
  have "[k..<k + length (code_cells (Code c # cs))]
      = k # [Suc k..<Suc k + length (code_cells cs)]"
    by (simp add: upt_conv_Cons del: upt_Suc)
  with "3.IH" show ?case
    by (simp del: upt_Suc)
qed

lemma in_order_record_counts:
  assumes "in_order_record nb"
  shows "execution_counts nb = map Some [1..<Suc (length (code_cells (nb_cells nb)))]"
  using run_in_order_counts [of 1 "nb_cells nb"] assms
  by (simp add: in_order_record_def execution_counts_def)





subsection \<open>The version check\<close>

lemma first_use_loading_numpy:
  "\<exists>rest. from_first_use loading_numpy =
     \<lparr>execution_count = Some 2, tags = [''VersionCheck''], result_count = None,
      source = [Import ''stellargraph'' (Some ''sg''), VersionCheck]\<rparr> # rest"
  by (simp add: from_first_use_def loading_numpy_def cell_defs library_module_def)

lemma first_use_load_cora_into_neo4j:
  "\<exists>rest. from_first_use load_cora_into_neo4j =
     \<lparr>execution_count = Some 2, tags = [''VersionCheck''], result_count = None,
      source = [Import ''stellargraph'' (Some ''sg''), VersionCheck]\<rparr> # rest"
  by (simp add: from_first_use_def load_cora_into_neo4j_def cell_defs library_module_def)

lemma first_use_gcn_supervised_graph_classification:
  "\<exists>rest. from_first_use gcn_supervised_graph_classification =
     \<lparr>execution_count = Some 2, tags = [''VersionCheck''], result_count = None,
      source = [Import ''stellargraph'' (Some ''sg''), VersionCheck]\<rparr> # rest"
  by (simp add: from_first_use_def gcn_supervised_graph_classification_def cell_defs
      library_module_def)

lemma first_use_loading_networkx:
  "\<exists>rest. from_first_use loading_networkx =
     \<lparr>execution_count = Some 2, tags = [''VersionCheck''], result_count = None,
      source = [Import ''stellargraph'' (Some ''sg''), VersionCheck]\<rparr> # rest"
  by (simp add: from_first_use_def loading_networkx_def cell_defs library_module_def)

lemma version_check_passes:
  "version_check e sg = None \<longleftrightarrow>
     has_validate_notebook_version sg \<and> lib_version sg = ''1.2.1''"
  by (cases e) (auto simp add: version_check_def validate_notebook_version_def)

lemma version_check_missing:
  "\<not> has_validate_notebook_version sg \<Longrightarrow>
   version_check e sg = Some (ValueError (version_message (lib_version sg)))"
  by (simp add: version_check_def)

lemma version_check_mismatch:
  "has_validate_notebook_version sg \<Longrightarrow> lib_version sg \<noteq> ''1.2.1'' \<Longrightarrow>
   version_check e sg =
     Some (if e = AttributeError then ValueError (version_message (lib_version sg)) else e)"
  by (cases e) (auto simp add: version_check_def validate_notebook_version_def)

text \<open>
  C9. In each of the four notebooks the first code cell that uses the library is the
  version check (the cell before it only installs the package when the notebook runs on
  Colab): it imports the library and calls
  \<^verbatim>\<open>sg.utils.validate_notebook_version("1.2.1")\<close>. The cell ends without an exception exactly
  when the installation has that function and its version is 1.2.1. When the installation
  has no such function the cell raises a \<^verbatim>\<open>ValueError\<close> whose message names the installed
  version; when it has the function and another version, the function's exception leaves
  the cell (as that \<^verbatim>\<open>ValueError\<close>, were it an \<^verbatim>\<open>AttributeError\<close>).
\<close>

theorem version_check_first:
  "(nb \<in> set demo_notebooks \<longrightarrow>
      (\<exists>rest. from_first_use nb =
         \<lparr>execution_count = Some 2, tags = [''VersionCheck''], result_count = None,
          source = [Import ''stellargraph'' (Some ''sg''), VersionCheck]\<rparr> # rest))
   \<and> (version_check e sg = None \<longleftrightarrow>
        has_validate_notebook_version sg \<and> lib_version sg = ''1.2.1'')
   \<and> (\<not> has_validate_notebook_version sg \<longrightarrow>
        version_check e sg = Some (ValueError (version_message (lib_version sg))))
   \<and> (has_validate_notebook_version sg \<longrightarrow> lib_version sg \<noteq> ''1.2.1'' \<longrightarrow>
        version_check e sg =
          Some (if e = AttributeError then ValueError (version_message (lib_version sg)) else e))
   \<and> version_message v =
        ''This notebook requires StellarGraph version 1.2.1, but a different version '' @ v @
        '' is installed.  Please see <https://github.com/stellargraph/stellargraph/issues/1172>.''"
proof -
  have "\<exists>rest. from_first_use nb =
         \<lparr>execution_count = Some 2, tags = [''VersionCheck''], result_count = None,
          source = [Import ''stellargraph'' (Some ''sg''), VersionCheck]\<rparr> # rest"
    if mem: "nb \<in> set demo_notebooks"
  proof -
    consider "nb = loading_numpy" | "nb = load_cora_into_neo4j"
      | "nb = gcn_supervised_graph_classification" | "nb = loading_networkx"
      using mem by (auto simp add: demo_notebooks_def)
    then show ?thesis
      using first_use_loading_numpy first_use_load_cora_into_neo4j
        first_use_gcn_supervised_graph_classification first_use_loading_networkx
      by cases blast+
  qed
  then show ?thesis
    using version_check_passes [of e sg] version_check_missing [of sg e]
      version_check_mismatch [of sg e]
    by (simp only: version_message_def) blast
qed

theorem version_check_first_witness:
  "loading_networkx \<in> set demo_notebooks
   \<and> map source (take 1 (from_first_use loading_networkx))
       = [[Import ''stellargraph'' (Some ''sg''), VersionCheck]]
   \<and> version_check (OtherError ''mismatch'')
        \<lparr>lib_version = ''1.0.0'', has_validate_notebook_version = False\<rparr>
       = Some (ValueError (version_message ''1.0.0''))
   \<and> version_check (OtherError ''mismatch'')
        \<lparr>lib_version = ''1.2.0'', has_validate_notebook_version = True\<rparr>
       = Some (OtherError ''mismatch'')
   \<and> version_check (OtherError ''mismatch'')
        \<lparr>lib_version = ''1.2.1'', has_validate_notebook_version = True\<rparr>
       = None"
proof -
  have m: "loading_networkx \<in> set demo_notebooks"
    by (simp add: demo_notebooks_def)
  from version_check_first [of loading_networkx] m
  have "\<exists>rest. from_first_use loading_networkx =
         \<lparr>execution_count = Some 2, tags = [''VersionCheck''], result_count = None,
          source = [Import ''stellargraph'' (Some ''sg''), VersionCheck]\<rparr> # rest"
    by blast
  then have "map source (take 1 (from_first_use loading_networkx))
       = [[Import ''stellargraph'' (Some ''sg''), VersionCheck]]"
    by auto
  moreover from version_check_first
    [of _ "OtherError ''mismatch''"
      "\<lparr>lib_version = ''1.0.0'', has_validate_notebook_version = False\<rparr>"]
  have "version_check (OtherError ''mismatch'')
        \<lparr>lib_version = ''1.0.0'', has_validate_notebook_version = False\<rparr>
       = Some (ValueError (version_message ''1.0.0''))"
    by simp
  moreover from version_check_first
    [of _ "OtherError ''mismatch''"
      "\<lparr>lib_version = ''1.2.0'', has_validate_notebook_version = True\<rparr>"]
  have "version_check (OtherError ''mismatch'')
        \<lparr>lib_version = ''1.2.0'', has_validate_notebook_version = True\<rparr>
       = Some (OtherError ''mismatch'')"
    by simp
  moreover from version_check_first
    [of _ "OtherError ''mismatch''"
      "\<lparr>lib_version = ''1.2.1'', has_validate_notebook_version = True\<rparr>"]
  have "version_check (OtherError ''mismatch'')
        \<lparr>lib_version = ''1.2.1'', has_validate_notebook_version = True\<rparr>
       = None"
    by simp
  ultimately show ?thesis
    using m by simp
qed

subsection \<open>The call shapes\<close>

lemma from_networkx_calls:
  "calls demo_notebooks ''StellarGraph.from_networkx'' =
     [(1, []), (1, [''node_type_default'', ''edge_type_default'']), (1, [''node_features'']),
      (1, [''node_features'']), (1, []), (1, [''edge_weight_attr'']), (1, []), (1, []),
      (1, [''node_type_default'']), (1, [''node_type_default'', ''node_type_attr'']),
      (1, [''node_features'']), (1, [''node_features'']), (1, []), (1, [''node_features''])]"
  by code_simp

lemma stellargraph_invoked:
  "invoked demo_notebooks ''StellarGraph'' 2 [''node_type_default'', ''edge_type_default'']"
  by code_simp

lemma indexed_array_invoked:
  "invoked demo_notebooks ''IndexedArray'' 1 [''index'']"
  by code_simp

text \<open>
  C3, as amended. Some code cell calls \<^verbatim>\<open>StellarGraph\<close> with two positional arguments and
  exactly the keywords \<^verbatim>\<open>node_type_default\<close> and \<^verbatim>\<open>edge_type_default\<close>, and some code cell
  calls \<^verbatim>\<open>IndexedArray\<close> with one positional argument and exactly the keyword \<^verbatim>\<open>index\<close>.
  \<^verbatim>\<open>StellarGraph.from_networkx\<close> is called fourteen times, each time with the graph as its one
  positional argument; each of \<^verbatim>\<open>node_features\<close>, \<^verbatim>\<open>edge_weight_attr\<close> and \<^verbatim>\<open>node_type_attr\<close>
  is a keyword of some call, and no call has more than one of the three.
\<close>

theorem call_shapes:
  "invoked demo_notebooks ''StellarGraph'' 2 [''node_type_default'', ''edge_type_default'']
   \<and> invoked demo_notebooks ''IndexedArray'' 1 [''index'']
   \<and> calls demo_notebooks ''StellarGraph.from_networkx'' =
       [(1, []), (1, [''node_type_default'', ''edge_type_default'']), (1, [''node_features'']),
        (1, [''node_features'']), (1, []), (1, [''edge_weight_attr'']), (1, []), (1, []),
        (1, [''node_type_default'']), (1, [''node_type_default'', ''node_type_attr'']),
        (1, [''node_features'']), (1, [''node_features'']), (1, []), (1, [''node_features''])]
   \<and> list_ex (passes ''node_features'') (calls demo_notebooks ''StellarGraph.from_networkx'')
   \<and> list_ex (passes ''edge_weight_attr'') (calls demo_notebooks ''StellarGraph.from_networkx'')
   \<and> list_ex (passes ''node_type_attr'') (calls demo_notebooks ''StellarGraph.from_networkx'')
   \<and> list_all (\<lambda>c. length (filter (\<lambda>k. passes k c)
                   [''node_features'', ''edge_weight_attr'', ''node_type_attr'']) \<le> 1)
        (calls demo_notebooks ''StellarGraph.from_networkx'')"
  using stellargraph_invoked indexed_array_invoked
  by (simp add: from_networkx_calls passes_def)

theorem call_shapes_witness:
  "length (calls demo_notebooks ''StellarGraph.from_networkx'') = 14
   \<and> invoked demo_notebooks ''IndexedArray'' 1 [''index'']"
proof -
  from call_shapes have "calls demo_notebooks ''StellarGraph.from_networkx'' =
       [(1, []), (1, [''node_type_default'', ''edge_type_default'']), (1, [''node_features'']),
        (1, [''node_features'']), (1, []), (1, [''edge_weight_attr'']), (1, []), (1, []),
        (1, [''node_type_default'']), (1, [''node_type_default'', ''node_type_attr'']),
        (1, [''node_features'']), (1, [''node_features'']), (1, []), (1, [''node_features''])]"
    by (elim conjE)
  moreover from call_shapes have "invoked demo_notebooks ''IndexedArray'' 1 [''index'']"
    by (elim conjE)
  ultimately show ?thesis by simp
qed

text \<open>
  C3 as stated fails: no call of \<^verbatim>\<open>StellarGraph.from_networkx\<close> in the notebooks has the
  keywords \<^verbatim>\<open>node_features\<close>, \<^verbatim>\<open>edge_weight_attr\<close> and \<^verbatim>\<open>node_type_attr\<close> together, so none
  has exactly these three.
\<close>

theorem call_shapes_counterexample:
  "\<not> invoked demo_notebooks ''StellarGraph.from_networkx'' 1
        [''node_features'', ''edge_weight_attr'', ''node_type_attr'']
   \<and> \<not> list_ex (\<lambda>c. passes ''node_features'' c \<and> passes ''edge_weight_attr'' c
                    \<and> passes ''node_type_attr'' c)
         (calls demo_notebooks ''StellarGraph.from_networkx'')"
  by (simp add: invoked_def from_networkx_calls passes_def)

section \<open>Properties of the constructors\<close>

subsection \<open>IndexedArray\<close>

lemma IndexedArray_ok:
  "length index = length vs \<Longrightarrow>
   IndexedArray (Some vs) index = Inr \<lparr>ia_values = vs, ia_index = index\<rparr>"
  by (simp add: IndexedArray_def)

lemma IndexedArray_mismatch:
  "length index \<noteq> length vs \<Longrightarrow>
   IndexedArray (Some vs) index = Inl (IndexLengthMismatch (length index) (length vs))"
  by (simp add: IndexedArray_def)

lemma row_of_nth:
  assumes "distinct index" and "length index = length vs" and "i < length vs"
  shows "row_of \<lparr>ia_values = vs, ia_index = index\<rparr> (index ! i) = Some (vs ! i)"
proof -
  have "map_of (zip index vs) (index ! i) = Some (vs ! i)"
    using assms by (simp add: map_of_zip_nth)
  then show ?thesis
    by (simp add: row_of_def)
qed

text \<open>
  C5. \<^verbatim>\<open>IndexedArray(values, index=...)\<close> returns an array exactly when the index has one
  element per row of the values; the identifier of row \<open>i\<close> of the array is then the
  \<open>i\<close>-th element of the index, and (the identifiers being distinct) the row of that
  identifier is row \<open>i\<close> of the values.
\<close>

theorem indexed_array_rows:
  "(length index = length vs \<longrightarrow>
      (\<exists>a. IndexedArray (Some vs) index = Inr a
         \<and> ia_index a = index \<and> ia_values a = vs
         \<and> (i < length vs \<longrightarrow> row_id a i = Some (index ! i))
         \<and> (i < length vs \<longrightarrow> distinct index \<longrightarrow> row_of a (index ! i) = Some (vs ! i))))
   \<and> (length index \<noteq> length vs \<longrightarrow> (\<exists>e. IndexedArray (Some vs) index = Inl e))"
proof (cases "length index = length vs")
  case True
  then have "IndexedArray (Some vs) index = Inr \<lparr>ia_values = vs, ia_index = index\<rparr>"
    by (rule IndexedArray_ok)
  moreover have "row_id \<lparr>ia_values = vs, ia_index = index\<rparr> i = Some (index ! i)"
    if "i < length vs"
    using that True by (simp add: row_id_def)
  moreover have "row_of \<lparr>ia_values = vs, ia_index = index\<rparr> (index ! i) = Some (vs ! i)"
    if "i < length vs" and "distinct index"
    using that True by (simp add: row_of_nth)
  ultimately show ?thesis
    using True by simp
next
  case False
  then show ?thesis
    by (simp add: IndexedArray_mismatch)
qed

theorem indexed_array_rows_witness:
  "IndexedArray (Some feature_array) (str_ids [''a'', ''b'', ''c'', ''d'']) = Inr indexed_array_value
   \<and> row_id indexed_array_value 2 = Some (StrId ''c'')
   \<and> row_of indexed_array_value (StrId ''c'') = Some (vec [3, 0])
   \<and> (\<exists>e. IndexedArray (Some feature_array) (str_ids [''a'', ''b'', ''c'']) = Inl e)"
proof -
  have l: "length (str_ids [''a'', ''b'', ''c'', ''d'']) = length feature_array"
    and d: "distinct (str_ids [''a'', ''b'', ''c'', ''d''])"
    and i: "2 < length feature_array"
    and n: "length (str_ids [''a'', ''b'', ''c'']) \<noteq> length feature_array"
    by (simp_all add: str_ids_def feature_array_def)
  from indexed_array_rows [of "str_ids [''a'', ''b'', ''c'', ''d'']" feature_array 2] l d i
  obtain a where a: "IndexedArray (Some feature_array) (str_ids [''a'', ''b'', ''c'', ''d'']) = Inr a"
    and "ia_index a = str_ids [''a'', ''b'', ''c'', ''d'']" and "ia_values a = feature_array"
    and r: "row_id a 2 = Some (str_ids [''a'', ''b'', ''c'', ''d''] ! 2)"
    and v: "row_of a (str_ids [''a'', ''b'', ''c'', ''d''] ! 2) = Some (feature_array ! 2)"
    by blast
  then have "a = indexed_array_value"
    by (simp add: indexed_array_value_def)
  moreover from indexed_array_rows [of "str_ids [''a'', ''b'', ''c'']" feature_array] n
  have "\<exists>e. IndexedArray (Some feature_array) (str_ids [''a'', ''b'', ''c'']) = Inl e"
    by blast
  ultimately show ?thesis
    using a r v by (simp add: str_ids_def feature_array_def)
qed

text \<open>Without values, the array has one row without features per index element.\<close>

lemma IndexedArray_no_values:
  "IndexedArray None (str_ids [''a'']) = Inr square_foo"
  "IndexedArray None (str_ids [''b'']) = Inr square_foo_overlap"
  "IndexedArray (Some bar_features) (str_ids [''b'', ''c'', ''d'']) = Inr square_bar"
  by (simp_all add: IndexedArray_def square_foo_def square_foo_overlap_def square_bar_def
      str_ids_def bar_features_def)

subsection \<open>Node identifiers across node types\<close>

lemma shared_ids_Cons_Nil:
  "shared_ids (ta # rest) = [] \<longleftrightarrow>
     (\<forall>tb \<in> set rest. set (ia_index (snd ta)) \<inter> set (ia_index (snd tb)) = {})
     \<and> shared_ids rest = []"
  by (auto simp add: filter_empty_conv list_ex_iff)

lemma ids_overlap_Cons:
  assumes "fst ta \<notin> fst ` set rest"
  shows "ids_overlap (ta # rest) \<longleftrightarrow>
     (\<exists>tb \<in> set rest. set (ia_index (snd ta)) \<inter> set (ia_index (snd tb)) \<noteq> {})
     \<or> ids_overlap rest"
proof
  assume "ids_overlap (ta # rest)"
  then obtain x y n where x: "x \<in> set (ta # rest)" and y: "y \<in> set (ta # rest)"
    and ne: "fst x \<noteq> fst y"
    and n: "n \<in> set (ia_index (snd x))" "n \<in> set (ia_index (snd y))"
    unfolding ids_overlap_def by blast
  consider "x = ta" "y \<in> set rest" | "y = ta" "x \<in> set rest"
    | "x \<in> set rest" "y \<in> set rest"
    using x y ne by auto
  then show "(\<exists>tb \<in> set rest. set (ia_index (snd ta)) \<inter> set (ia_index (snd tb)) \<noteq> {})
     \<or> ids_overlap rest"
  proof cases
    case 1
    with n show ?thesis by blast
  next
    case 2
    with n show ?thesis by blast
  next
    case 3
    with ne n have "ids_overlap rest"
      unfolding ids_overlap_def by blast
    then show ?thesis ..
  qed
next
  assume "(\<exists>tb \<in> set rest. set (ia_index (snd ta)) \<inter> set (ia_index (snd tb)) \<noteq> {})
     \<or> ids_overlap rest"
  then show "ids_overlap (ta # rest)"
  proof
    assume "\<exists>tb \<in> set rest. set (ia_index (snd ta)) \<inter> set (ia_index (snd tb)) \<noteq> {}"
    then obtain tb n where tb: "tb \<in> set rest"
      and n: "n \<in> set (ia_index (snd ta))" "n \<in> set (ia_index (snd tb))"
      by blast
    from tb assms have "fst ta \<noteq> fst tb" by force
    with tb n show ?thesis
      unfolding ids_overlap_def by (intro bexI [of _ ta] bexI [of _ tb]) auto
  next
    assume "ids_overlap rest"
    then obtain x y n where "x \<in> set rest" "y \<in> set rest" "fst x \<noteq> fst y"
      "n \<in> set (ia_index (snd x))" "n \<in> set (ia_index (snd y))"
      unfolding ids_overlap_def by blast
    then show ?thesis
      unfolding ids_overlap_def by (intro bexI [of _ x] bexI [of _ y]) auto
  qed
qed

lemma ids_overlap_iff:
  "distinct (map fst d) \<Longrightarrow> ids_overlap d \<longleftrightarrow> shared_ids d \<noteq> []"
proof (induction d)
  case Nil
  then show ?case by (simp add: ids_overlap_def)
next
  case (Cons ta rest)
  then have k: "fst ta \<notin> fst ` set rest"
    and ih: "ids_overlap rest \<longleftrightarrow> shared_ids rest \<noteq> []"
    by simp_all
  have "ids_overlap (ta # rest) \<longleftrightarrow>
     (\<exists>tb \<in> set rest. set (ia_index (snd ta)) \<inter> set (ia_index (snd tb)) \<noteq> {})
     \<or> ids_overlap rest"
    using k by (rule ids_overlap_Cons)
  then show ?case
    using ih shared_ids_Cons_Nil [of ta rest] by blast
qed

text \<open>
  C1. For a dictionary of node types, the constructor raises an error exactly when some
  node identifier is in the index of more than one node type; otherwise it returns
  the graph with the node types of the dictionary.
\<close>

theorem duplicate_ids_rejected:
  assumes "distinct (map fst d)"
  shows "(ids_overlap d \<longrightarrow>
            (\<exists>ids. StellarGraph (NodeTypes d) edges nt et = Inl (NodeIdsNotUnique ids)))
       \<and> (\<not> ids_overlap d \<longrightarrow>
            (\<exists>g. StellarGraph (NodeTypes d) edges nt et = Inr g \<and> sg_nodes g = d))"
  using ids_overlap_iff [OF assms]
  by (simp add: StellarGraph_def Let_def)

theorem duplicate_ids_rejected_witness:
  "(\<exists>ids. StellarGraph (NodeTypes [(''foo'', square_foo_overlap), (''bar'', square_bar)])
            (Frame square_edges) None None = Inl (NodeIdsNotUnique ids))
   \<and> (\<exists>g. StellarGraph (NodeTypes [(''foo'', square_foo), (''bar'', square_bar)])
            (Frame square_edges) None None = Inr g
          \<and> sg_nodes g = [(''foo'', square_foo), (''bar'', square_bar)])"
proof -
  have d1: "distinct (map fst [(''foo'', square_foo_overlap), (''bar'', square_bar)])"
    and d2: "distinct (map fst [(''foo'', square_foo), (''bar'', square_bar)])"
    by simp_all
  have o1: "ids_overlap [(''foo'', square_foo_overlap), (''bar'', square_bar)]"
    by (simp add: ids_overlap_def square_foo_overlap_def square_bar_def str_ids_def)
  have o2: "\<not> ids_overlap [(''foo'', square_foo), (''bar'', square_bar)]"
    by (simp add: ids_overlap_def square_foo_def square_bar_def str_ids_def)
  show ?thesis
    using duplicate_ids_rejected [OF d1, of "Frame square_edges" None None]
      duplicate_ids_rejected [OF d2, of "Frame square_edges" None None] o1 o2
    by blast
qed

text \<open>The identifier that the rejected dictionary of the notebook shares is \<open>b\<close>.\<close>

lemma overlap_example:
  "StellarGraph (NodeTypes [(''foo'', square_foo_overlap), (''bar'', square_bar)])
     (Frame square_edges) None None = Inl (NodeIdsNotUnique [StrId ''b''])"
  by (simp add: StellarGraph_def square_foo_overlap_def square_bar_def str_ids_def)

subsection \<open>Homogeneous graphs\<close>









text \<open>Without an edge, the summary lists no edge type.\<close>

lemma info_no_edges:
  "info_edge_types (info \<lparr>sg_nodes = ns, sg_edges = [(t, [])]\<rparr>) = []"
  by (simp add: info_def edge_types_of_def by_frequency_def List.map_filter_simps)





text \<open>
  The summary of the heterogeneous graph of the loading-numpy notebook, as the notebook
  records it: 4 nodes and 5 edges; the node types \<^verbatim>\<open>bar\<close> with 3 nodes and \<^verbatim>\<open>foo\<close> with 1;
  the edge types \<^verbatim>\<open>foo-default->bar\<close> with 2 edges, \<^verbatim>\<open>bar-default->bar\<close> with 2 and
  \<^verbatim>\<open>bar-default->foo\<close> with 1. The summaries that the notebook records for its
  homogeneous graphs are the two instances stated above.
\<close>

lemma info_square_foo_and_bar:
  "map_sum id info (StellarGraph (NodeTypes [(''foo'', square_foo), (''bar'', square_bar)])
       (Frame square_edges) None None)
     = Inr \<lparr>info_nodes = 4, info_edges = 5,
            info_node_types =
              [(''bar'', 3, [(''bar'', ''default'', ''bar''), (''bar'', ''default'', ''foo'')]),
               (''foo'', 1, [(''foo'', ''default'', ''bar'')])],
            info_edge_types =
              [((''foo'', ''default'', ''bar''), 2), ((''bar'', ''default'', ''bar''), 2),
               ((''bar'', ''default'', ''foo''), 1)]\<rparr>"
  by code_simp

end
